theory Spec2Isabelle
  imports Complex_Main
begin

section \<open>Values of the supplier payloads\<close>

text \<open>
  A supplier record is decoded JSON: \<open>None\<close>, booleans, numbers, strings, lists and
  dictionaries with string keys. A dictionary is an association list; a key is looked up
  from the left. A string is a list of 8-bit characters, read as the code points 0 to 255;
  Python's \<open>len\<close>, \<open>strip\<close>, \<open>lower\<close> and the regular expression of
  \<open>camel_to_snake_case\<close> agree with the functions below on text of such code points.
  Text with a code point beyond 255 is outside the model.
\<close>

datatype pyval =
    PNone
  | PBool bool
  | PInt int
  | PFloat real
  | PStr string
  | PList "pyval list"
  | PDict "(string \<times> pyval) list"

text \<open>Python's truth value of an object, as \<open>or\<close>, \<open>and\<close>, \<open>not\<close> and \<open>if\<close> use it.\<close>

fun truthy :: "pyval \<Rightarrow> bool" where
  "truthy PNone = False"
| "truthy (PBool b) = b"
| "truthy (PInt i) = (i \<noteq> 0)"
| "truthy (PFloat r) = (r \<noteq> 0)"
| "truthy (PStr s) = (s \<noteq> [])"
| "truthy (PList xs) = (xs \<noteq> [])"
| "truthy (PDict kvs) = (kvs \<noteq> [])"

text \<open>\<open>a or b\<close>: the first operand when it is truthy, the second otherwise.\<close>

definition py_or :: "pyval \<Rightarrow> pyval \<Rightarrow> pyval" where
  "py_or a b = (if truthy a then a else b)"

text \<open>The exceptions the adapters can raise. \<open>Untyped f\<close> is not a Python exception:
  it marks a record whose field \<open>f\<close> holds a value outside the type the \<open>Hotel\<close>
  dataclass declares for it. Python builds the \<open>Hotel\<close> all the same and stores the
  value unchecked: an \<open>id\<close> or a truthy description that is no string, a
  \<open>destination_id\<close> that is a float, a boolean or a container, Paperflies amenities of
  another shape, a Paperflies \<open>booking_conditions\<close> that is null or no list of strings.
  Such records are outside this model, and no statement below is about them.\<close>

datatype error = KeyError string | AttributeError | TypeError | Untyped string

definition bind_r :: "error + 'a \<Rightarrow> ('a \<Rightarrow> error + 'b) \<Rightarrow> error + 'b" where
  "bind_r m f = (case m of Inl e \<Rightarrow> Inl e | Inr x \<Rightarrow> f x)"

fun mapM_r :: "('a \<Rightarrow> error + 'b) \<Rightarrow> 'a list \<Rightarrow> error + 'b list" where
  "mapM_r f [] = Inr []"
| "mapM_r f (x # xs) =
     (case f x of Inl e \<Rightarrow> Inl e
      | Inr y \<Rightarrow> (case mapM_r f xs of Inl e \<Rightarrow> Inl e | Inr ys \<Rightarrow> Inr (y # ys)))"

text \<open>\<open>d[k]\<close> and \<open>d.get(k, default)\<close> on a dictionary.\<close>

definition getitem :: "(string \<times> pyval) list \<Rightarrow> string \<Rightarrow> error + pyval" where
  "getitem d k = (case map_of d k of None \<Rightarrow> Inl (KeyError k) | Some v \<Rightarrow> Inr v)"

definition dict_get :: "(string \<times> pyval) list \<Rightarrow> string \<Rightarrow> pyval \<Rightarrow> pyval" where
  "dict_get d k dflt = (case map_of d k of None \<Rightarrow> dflt | Some v \<Rightarrow> v)"

text \<open>\<open>v.get(k, default)\<close> on an arbitrary object: only a dictionary has \<open>get\<close>.\<close>

fun obj_get :: "pyval \<Rightarrow> string \<Rightarrow> pyval \<Rightarrow> error + pyval" where
  "obj_get (PDict d) k dflt = Inr (dict_get d k dflt)"
| "obj_get _ k dflt = Inl AttributeError"

text \<open>\<open>v[k]\<close> with a string key on an arbitrary object.\<close>

fun obj_getitem :: "pyval \<Rightarrow> string \<Rightarrow> error + pyval" where
  "obj_getitem (PDict d) k = getitem d k"
| "obj_getitem _ k = Inl TypeError"

text \<open>The elements a \<open>for\<close> loop or a comprehension visits.\<close>

fun py_iter :: "pyval \<Rightarrow> error + pyval list" where
  "py_iter (PList xs) = Inr xs"
| "py_iter (PStr s) = Inr (map (\<lambda>c. PStr [c]) s)"
| "py_iter (PDict d) = Inr (map (\<lambda>kv. PStr (fst kv)) d)"
| "py_iter _ = Inl TypeError"

section \<open>Strings\<close>

text \<open>The whitespace \<open>strip\<close> removes: tab, line feed, vertical tab, form feed, carriage
  return, the four separators \<open>0x1C\<close> to \<open>0x1F\<close>, the space, the next-line control
  \<open>0x85\<close> and the no-break space \<open>0xA0\<close>.\<close>

definition is_space :: "char \<Rightarrow> bool" where
  "is_space c = (c \<in> set [CHR 0x09, CHR 0x0A, CHR 0x0B, CHR 0x0C, CHR 0x0D,
                           CHR 0x1C, CHR 0x1D, CHR 0x1E, CHR 0x1F, CHR 0x20,
                           CHR 0x85, CHR 0xA0])"

text \<open>The letters the class \<open>[A-Z]\<close> of the regular expression matches, and their
  lowercase forms.\<close>

definition upper_letters :: string where
  "upper_letters = ''ABCDEFGHIJKLMNOPQRSTUVWXYZ''"

definition lower_letters :: string where
  "lower_letters = ''abcdefghijklmnopqrstuvwxyz''"

definition is_upper :: "char \<Rightarrow> bool" where
  "is_upper c = (c \<in> set upper_letters)"

text \<open>The other uppercase letters below code point 256, \<open>0xC0\<close> to \<open>0xDE\<close> without the
  multiplication sign \<open>0xD7\<close>, and their lowercase forms, 32 code points up.
  \<open>lower\<close> changes these and the letters \<open>A\<close> to \<open>Z\<close>, and nothing else.\<close>

definition latin_upper :: string where
  "latin_upper =
     [CHR 0xC0, CHR 0xC1, CHR 0xC2, CHR 0xC3, CHR 0xC4, CHR 0xC5, CHR 0xC6, CHR 0xC7,
      CHR 0xC8, CHR 0xC9, CHR 0xCA, CHR 0xCB, CHR 0xCC, CHR 0xCD, CHR 0xCE, CHR 0xCF,
      CHR 0xD0, CHR 0xD1, CHR 0xD2, CHR 0xD3, CHR 0xD4, CHR 0xD5, CHR 0xD6, CHR 0xD8,
      CHR 0xD9, CHR 0xDA, CHR 0xDB, CHR 0xDC, CHR 0xDD, CHR 0xDE]"

definition latin_lower :: string where
  "latin_lower =
     [CHR 0xE0, CHR 0xE1, CHR 0xE2, CHR 0xE3, CHR 0xE4, CHR 0xE5, CHR 0xE6, CHR 0xE7,
      CHR 0xE8, CHR 0xE9, CHR 0xEA, CHR 0xEB, CHR 0xEC, CHR 0xED, CHR 0xEE, CHR 0xEF,
      CHR 0xF0, CHR 0xF1, CHR 0xF2, CHR 0xF3, CHR 0xF4, CHR 0xF5, CHR 0xF6, CHR 0xF8,
      CHR 0xF9, CHR 0xFA, CHR 0xFB, CHR 0xFC, CHR 0xFD, CHR 0xFE]"

definition lower_char :: "char \<Rightarrow> char" where
  "lower_char c =
     (case map_of (zip (upper_letters @ latin_upper) (lower_letters @ latin_lower)) c of
        None \<Rightarrow> c
      | Some l \<Rightarrow> l)"

definition py_lower :: "string \<Rightarrow> string" where
  "py_lower s = map lower_char s"

definition py_strip :: "string \<Rightarrow> string" where
  "py_strip s = rev (dropWhile is_space (rev (dropWhile is_space s)))"

text \<open>\<open>a in b\<close> on two strings: \<open>a\<close> occurs in \<open>b\<close> as a contiguous run.\<close>

fun is_prefix :: "string \<Rightarrow> string \<Rightarrow> bool" where
  "is_prefix [] ys = True"
| "is_prefix (x # xs) [] = False"
| "is_prefix (x # xs) (y # ys) = (x = y \<and> is_prefix xs ys)"

fun str_in :: "string \<Rightarrow> string \<Rightarrow> bool" where
  "str_in xs [] = (xs = [])"
| "str_in xs (y # ys) = (is_prefix xs (y # ys) \<or> str_in xs ys)"

text \<open>\<open>str\<close> of an integer.\<close>

definition digit_char :: "nat \<Rightarrow> char" where
  "digit_char d = ''0123456789'' ! d"

fun str_nat :: "nat \<Rightarrow> string" where
  "str_nat n = (if n < 10 then [digit_char n] else str_nat (n div 10) @ [digit_char (n mod 10)])"

definition str_int :: "int \<Rightarrow> string" where
  "str_int i = (if i < 0 then CHR ''-'' # str_nat (nat (- i)) else str_nat (nat i))"

section \<open>The vocabulary classifier\<close>

definition GENERAL_AMENITIES :: "string list" where
  "GENERAL_AMENITIES = [''outdoor pool'', ''indoor pool'', ''business center'', ''childcare'',
     ''wifi'', ''dry cleaning'', ''breakfast'']"

definition ROOM_AMENITIES :: "string list" where
  "ROOM_AMENITIES = [''aircon'', ''tv'', ''coffee machine'', ''kettle'', ''hair dryer'',
     ''iron'', ''bathtub'']"

text \<open>
  \<open>re.sub(r'(?<!^)([A-Z])', r' \1', s).lower()\<close>: every letter \<open>A\<close> to \<open>Z\<close> that is
  not at the start of the string gets a space in front of it; then the result is lowercased.
\<close>

fun space_upper :: "string \<Rightarrow> string" where
  "space_upper [] = []"
| "space_upper (c # cs) = (if is_upper c then CHR '' '' # c # space_upper cs else c # space_upper cs)"

fun camel_to_snake_case :: "string \<Rightarrow> string" where
  "camel_to_snake_case [] = []"
| "camel_to_snake_case (c # cs) = py_lower (c # space_upper cs)"

section \<open>The canonical entity\<close>

text \<open>
  The \<open>Hotel\<close> dataclass. \<open>id\<close> and \<open>description\<close> are strings and
  \<open>booking_conditions\<close> a list of strings, as the dataclass declares them and as the merge
  uses them (dictionary key, \<open>len\<close>, list concatenation). \<open>name\<close> and the five
  location values stay arbitrary payload values, since the code only tests their truth value.
  \<open>destination_id\<close> is \<open>None\<close>, an integer or a string: the values whose \<open>str\<close>
  the query layer compares. The dictionaries \<open>location\<close>, \<open>amenities\<close> and
  \<open>images\<close> always have the same keys, so they are records.
\<close>

datatype dest = DNone | DInt int | DStr string

fun py_str :: "dest \<Rightarrow> string" where
  "py_str DNone = ''None''"
| "py_str (DInt i) = str_int i"
| "py_str (DStr s) = s"

record location_rec =
  lat :: pyval
  lng :: pyval
  address :: pyval
  city :: pyval
  country :: pyval

record amenities_rec =
  general :: "string list"
  room :: "string list"

record image =
  link :: pyval
  img_description :: pyval

record images_rec =
  rooms :: "image list"
  site :: "image list"
  img_amenities :: "image list"

record hotel =
  hotel_id :: string
  destination_id :: dest
  name :: pyval
  description :: string
  location :: location_rec
  amenities :: amenities_rec
  images :: images_rec
  booking_conditions :: "string list"

text \<open>Reading a payload value at the type of a dataclass field.\<close>

fun as_str :: "string \<Rightarrow> pyval \<Rightarrow> error + string" where
  "as_str f (PStr s) = Inr s"
| "as_str f _ = Inl (Untyped f)"

fun as_dest :: "pyval \<Rightarrow> error + dest" where
  "as_dest PNone = Inr DNone"
| "as_dest (PInt i) = Inr (DInt i)"
| "as_dest (PStr s) = Inr (DStr s)"
| "as_dest _ = Inl (Untyped ''destination_id'')"

fun as_str_list :: "string \<Rightarrow> pyval \<Rightarrow> error + string list" where
  "as_str_list f (PList xs) = mapM_r (as_str f) xs"
| "as_str_list f _ = Inl (Untyped f)"

text \<open>\<open>v or ""\<close> at a text field.\<close>

definition or_empty_str :: "string \<Rightarrow> pyval \<Rightarrow> error + string" where
  "or_empty_str f v = (if truthy v then as_str f v else Inr [])"

section \<open>Supplier adapters\<close>

subsection \<open>Acme\<close>

text \<open>The loop of \<open>Acme.parse.parse_amenities\<close>, with the two lists it appends to.\<close>

fun acme_loop :: "pyval list \<Rightarrow> string list \<Rightarrow> string list \<Rightarrow> error + amenities_rec" where
  "acme_loop [] g r = Inr \<lparr>general = g, room = r\<rparr>"
| "acme_loop (PStr s # rest) g r =
     (let formatted = camel_to_snake_case (py_strip s);
          g' = (if formatted \<in> set GENERAL_AMENITIES then g @ [formatted] else g);
          r' = (if formatted \<in> set ROOM_AMENITIES then r @ [formatted] else r)
      in acme_loop rest g' r')"
| "acme_loop (_ # rest) g r = Inl AttributeError"

definition Acme_parse_amenities :: "pyval \<Rightarrow> error + amenities_rec" where
  "Acme_parse_amenities facilities = bind_r (py_iter facilities) (\<lambda>xs. acme_loop xs [] [])"

text \<open>\<open>(dto["Address"] or "").strip()\<close>\<close>

fun acme_strip :: "pyval \<Rightarrow> error + string" where
  "acme_strip (PStr s) = Inr (py_strip s)"
| "acme_strip v = (if truthy v then Inl AttributeError else Inr [])"

text \<open>The postal code is appended when it is truthy and not already part of the address.\<close>

fun acme_postal :: "string \<Rightarrow> pyval \<Rightarrow> error + string" where
  "acme_postal addr (PStr p) =
     (if p \<noteq> [] \<and> \<not> str_in p addr then Inr (addr @ '', '' @ p) else Inr addr)"
| "acme_postal addr v = (if truthy v then Inl TypeError else Inr addr)"

definition Acme_parse :: "(string \<times> pyval) list \<Rightarrow> error + hotel" where
  "Acme_parse dto =
     bind_r (getitem dto ''Address'') (\<lambda>a.
     bind_r (acme_strip a) (\<lambda>addr0.
     bind_r (getitem dto ''PostalCode'') (\<lambda>pc.
     bind_r (acme_postal addr0 pc) (\<lambda>addr.
     bind_r (getitem dto ''Id'') (\<lambda>i.
     bind_r (getitem dto ''DestinationId'') (\<lambda>d.
     bind_r (getitem dto ''Name'') (\<lambda>n.
     bind_r (getitem dto ''Description'') (\<lambda>ds.
     bind_r (getitem dto ''Latitude'') (\<lambda>la.
     bind_r (getitem dto ''Longitude'') (\<lambda>lo.
     bind_r (getitem dto ''City'') (\<lambda>ci.
     bind_r (getitem dto ''Country'') (\<lambda>co.
     bind_r (getitem dto ''Facilities'') (\<lambda>fa.
     bind_r (Acme_parse_amenities (py_or fa (PList []))) (\<lambda>am.
     bind_r (as_str ''id'' i) (\<lambda>i'.
     bind_r (as_dest d) (\<lambda>d'.
     bind_r (or_empty_str ''description'' ds) (\<lambda>ds'.
       Inr \<lparr>hotel_id = i', destination_id = d', name = n, description = ds',
            location = \<lparr>lat = la, lng = lo, address = PStr addr, city = ci, country = co\<rparr>,
            amenities = am,
            images = \<lparr>rooms = [], site = [], img_amenities = []\<rparr>,
            booking_conditions = []\<rparr>)))))))))))))))))"

subsection \<open>Paperflies\<close>

text \<open>\<open>dto["amenities"] or {"general": [], "room": []}\<close>: a truthy value is passed through
  as it is.\<close>

definition paperflies_amenities :: "pyval \<Rightarrow> error + amenities_rec" where
  "paperflies_amenities v =
     (if truthy v then
        bind_r (case v of PDict d \<Rightarrow> Inr d | _ \<Rightarrow> Inl (Untyped ''amenities'')) (\<lambda>d.
        bind_r (case map_of d ''general'' of None \<Rightarrow> Inl (Untyped ''amenities'')
                | Some g \<Rightarrow> as_str_list ''amenities'' g) (\<lambda>g.
        bind_r (case map_of d ''room'' of None \<Rightarrow> Inl (Untyped ''amenities'')
                | Some r \<Rightarrow> as_str_list ''amenities'' r) (\<lambda>r.
          Inr \<lparr>general = g, room = r\<rparr>)))
      else Inr \<lparr>general = [], room = []\<rparr>)"

text \<open>\<open>[{"link": img[lk], "description": img[dk]} for img in (v or {}).get(k, [])]\<close>\<close>

definition image_list :: "string \<Rightarrow> string \<Rightarrow> pyval \<Rightarrow> string \<Rightarrow> error + image list" where
  "image_list lk dk v k =
     bind_r (obj_get (py_or v (PDict [])) k (PList [])) (\<lambda>xs.
     bind_r (py_iter xs) (\<lambda>imgs.
       mapM_r (\<lambda>img.
         bind_r (obj_getitem img lk) (\<lambda>l.
         bind_r (obj_getitem img dk) (\<lambda>d.
           Inr \<lparr>link = l, img_description = d\<rparr>))) imgs))"

definition Paperflies_parse :: "(string \<times> pyval) list \<Rightarrow> error + hotel" where
  "Paperflies_parse dto =
     (let loc = dict_get dto ''location'' (PDict []) in
     bind_r (getitem dto ''hotel_id'') (\<lambda>i.
     bind_r (getitem dto ''destination_id'') (\<lambda>d.
     bind_r (getitem dto ''hotel_name'') (\<lambda>n.
     bind_r (getitem dto ''details'') (\<lambda>ds.
     bind_r (obj_get loc ''address'' PNone) (\<lambda>ad.
     bind_r (obj_get loc ''country'' PNone) (\<lambda>co.
     bind_r (getitem dto ''amenities'') (\<lambda>am.
     bind_r (getitem dto ''images'') (\<lambda>im.
     bind_r (image_list ''link'' ''caption'' im ''rooms'') (\<lambda>rs.
     bind_r (image_list ''link'' ''caption'' im ''site'') (\<lambda>ss.
     bind_r (as_str ''id'' i) (\<lambda>i'.
     bind_r (as_dest d) (\<lambda>d'.
     bind_r (or_empty_str ''description'' ds) (\<lambda>ds'.
     bind_r (paperflies_amenities am) (\<lambda>am'.
     bind_r (as_str_list ''booking_conditions''
               (dict_get dto ''booking_conditions'' (PList []))) (\<lambda>bc.
       Inr \<lparr>hotel_id = i', destination_id = d', name = n, description = ds',
            location = \<lparr>lat = PNone, lng = PNone, address = ad, city = PNone, country = co\<rparr>,
            amenities = am',
            images = \<lparr>rooms = rs, site = ss, img_amenities = []\<rparr>,
            booking_conditions = bc\<rparr>))))))))))))))))"

subsection \<open>Patagonia\<close>

text \<open>\<open>a.lower().strip()\<close> of one entry; only a string has \<open>lower\<close>.\<close>

fun patagonia_norm :: "pyval \<Rightarrow> error + string" where
  "patagonia_norm (PStr s) = Inr (py_strip (py_lower s))"
| "patagonia_norm _ = Inl AttributeError"

definition Patagonia_parse_amenities :: "pyval \<Rightarrow> error + amenities_rec" where
  "Patagonia_parse_amenities v =
     bind_r (py_iter v) (\<lambda>xs.
     bind_r (mapM_r patagonia_norm xs) (\<lambda>ns.
       Inr \<lparr>general = filter (\<lambda>a. a \<in> set GENERAL_AMENITIES) ns,
            room = filter (\<lambda>a. a \<in> set ROOM_AMENITIES) ns\<rparr>))"

definition Patagonia_parse :: "(string \<times> pyval) list \<Rightarrow> error + hotel" where
  "Patagonia_parse dto =
     bind_r (getitem dto ''id'') (\<lambda>i.
     bind_r (getitem dto ''destination'') (\<lambda>d.
     bind_r (getitem dto ''name'') (\<lambda>n.
     bind_r (getitem dto ''info'') (\<lambda>ds.
     bind_r (getitem dto ''lat'') (\<lambda>la.
     bind_r (getitem dto ''lng'') (\<lambda>lo.
     bind_r (getitem dto ''address'') (\<lambda>ad.
     bind_r (getitem dto ''amenities'') (\<lambda>am.
     bind_r (Patagonia_parse_amenities (py_or am (PList []))) (\<lambda>am'.
     bind_r (getitem dto ''images'') (\<lambda>im.
     bind_r (image_list ''url'' ''description'' im ''rooms'') (\<lambda>rs.
     bind_r (image_list ''url'' ''description'' im ''amenities'') (\<lambda>as.
     bind_r (as_str ''id'' i) (\<lambda>i'.
     bind_r (as_dest d) (\<lambda>d'.
     bind_r (or_empty_str ''description'' ds) (\<lambda>ds'.
       Inr \<lparr>hotel_id = i', destination_id = d', name = n, description = ds',
            location = \<lparr>lat = la, lng = lo, address = ad, city = PNone, country = PNone\<rparr>,
            amenities = am',
            images = \<lparr>rooms = rs, site = [], img_amenities = as\<rparr>,
            booking_conditions = []\<rparr>)))))))))))))))"

section \<open>The reconciliation engine\<close>

text \<open>
  \<open>list(set(xs))\<close>: the elements of \<open>xs\<close>, each once. Python does not specify
  the order in which a set lists its elements; the model takes the order \<open>remdups\<close>
  gives, and the statements below are about the set of elements and about the absence of
  duplicates only.
\<close>

definition list_set :: "'a list \<Rightarrow> 'a list" where
  "list_set xs = remdups xs"

text \<open>
  One key of the location dictionary: the key enters \<open>newLocation\<close> when the existing
  value is falsy and the incoming one is truthy, and \<open>newLocation\<close> overrides.
\<close>

definition fill :: "pyval \<Rightarrow> pyval \<Rightarrow> pyval" where
  "fill e h = (if \<not> truthy e \<and> truthy h then h else e)"

definition merge_location :: "location_rec \<Rightarrow> location_rec \<Rightarrow> location_rec" where
  "merge_location e h =
     \<lparr>lat = fill (lat e) (lat h), lng = fill (lng e) (lng h),
      address = fill (address e) (address h), city = fill (city e) (city h),
      country = fill (country e) (country h)\<rparr>"

text \<open>\<open>existing.images[k] + [img for img in hotel.images[k] if img not in existing.images[k]]\<close>\<close>

definition append_new :: "image list \<Rightarrow> image list \<Rightarrow> image list" where
  "append_new e h = e @ filter (\<lambda>img. img \<notin> set e) h"

text \<open>The \<open>else\<close> branch of the loop body: \<open>existing\<close> after \<open>hotel\<close> has been folded
  into it. Records are values here. In Python \<open>existing\<close> is mutated in place; each field
  is assigned once, from the same field of the two records only, so the result is also
  right when \<open>hotel\<close> and \<open>existing\<close> are one object, as they are when the entries of
  the mapping are merged into it again. The records of one \<open>supplier_data\<close> list are
  otherwise taken to be separate objects, as \<open>fetch\<close> builds them.\<close>

definition merge_hotel :: "hotel \<Rightarrow> hotel \<Rightarrow> hotel" where
  "merge_hotel existing hotel =
     existing\<lparr>
       name := py_or (name hotel) (name existing),
       description :=
         (if length (description existing) < length (description hotel)
          then description hotel else description existing),
       location := merge_location (location existing) (location hotel),
       amenities :=
         \<lparr>general = list_set (general (amenities existing) @ general (amenities hotel)),
          room = list_set (room (amenities existing) @ room (amenities hotel))\<rparr>,
       images :=
         \<lparr>rooms = append_new (rooms (images existing)) (rooms (images hotel)),
          site = append_new (site (images existing)) (site (images hotel)),
          img_amenities =
            append_new (img_amenities (images existing)) (img_amenities (images hotel))\<rparr>,
       booking_conditions :=
         list_set (booking_conditions existing @ booking_conditions hotel)\<rparr>"

text \<open>\<open>self.hotels\<close>, a dictionary in insertion order. Storing under a known key
  replaces the value in place; a new key goes to the end.\<close>

record service =
  hotels :: "(string \<times> hotel) list"

definition init_service :: service where
  "init_service = \<lparr>hotels = []\<rparr>"

fun dict_set :: "string \<Rightarrow> hotel \<Rightarrow> (string \<times> hotel) list \<Rightarrow> (string \<times> hotel) list" where
  "dict_set k v [] = [(k, v)]"
| "dict_set k v (p # ps) = (if fst p = k then (k, v) # ps else p # dict_set k v ps)"

definition merge_one :: "service \<Rightarrow> hotel \<Rightarrow> service" where
  "merge_one svc hotel =
     (case map_of (hotels svc) (hotel_id hotel) of
        None \<Rightarrow> svc\<lparr>hotels := dict_set (hotel_id hotel) hotel (hotels svc)\<rparr>
      | Some existing \<Rightarrow>
          svc\<lparr>hotels := dict_set (hotel_id hotel) (merge_hotel existing hotel) (hotels svc)\<rparr>)"

fun merge_and_save :: "service \<Rightarrow> hotel list \<Rightarrow> service" where
  "merge_and_save svc [] = svc"
| "merge_and_save svc (hotel # rest) = merge_and_save (merge_one svc hotel) rest"

section \<open>The query layer\<close>

text \<open>\<open>HotelsService.find\<close> with two sets of strings as filters: \<open>not hotel_ids\<close> is
  emptiness and \<open>in\<close> is membership. The method is given the service and returns it with
  the result, so that its effect on the service is part of the model.\<close>

definition find_hotels :: "service \<Rightarrow> string set \<Rightarrow> string set \<Rightarrow> hotel list \<times> service" where
  "find_hotels svc hotel_ids destination_ids =
     (filter (\<lambda>hotel. (hotel_ids = {} \<or> hotel_id hotel \<in> hotel_ids) \<and>
                      (destination_ids = {} \<or> py_str (destination_id hotel) \<in> destination_ids))
             (map snd (hotels svc)),
      svc)"

section \<open>Example records\<close>

text \<open>
  Three canonical records for the hotel \<open>iJhz\<close>, as three suppliers describe it,
  and one for another hotel.
\<close>

definition hotel_a :: hotel where
  "hotel_a =
     \<lparr>hotel_id = ''iJhz'', destination_id = DInt 5432, name = PStr ''Beach Villas Singapore'',
      description = ''short'',
      location = \<lparr>lat = PNone, lng = PNone, address = PStr ''8 Sentosa Gateway'',
                  city = PStr ''Singapore'', country = PStr ''SG''\<rparr>,
      amenities = \<lparr>general = [''outdoor pool'', ''breakfast''], room = []\<rparr>,
      images = \<lparr>rooms = [], site = [], img_amenities = []\<rparr>,
      booking_conditions = []\<rparr>"

definition hotel_b :: hotel where
  "hotel_b =
     \<lparr>hotel_id = ''iJhz'', destination_id = DInt 5432, name = PStr ''Beach Villas'',
      description = ''a longer and more complete description of the hotel'',
      location = \<lparr>lat = PInt 1, lng = PInt 103, address = PStr ''Sentosa'',
                  city = PNone, country = PStr ''Singapore''\<rparr>,
      amenities = \<lparr>general = [''outdoor pool'', ''breakfast''], room = [''tv'', ''aircon'']\<rparr>,
      images = \<lparr>rooms = [\<lparr>link = PStr ''https://d2ey9sqrvkqdfs.cloudfront.net/0qZF/2.jpg'',
                         img_description = PStr ''Double room''\<rparr>],
                site = [], img_amenities = []\<rparr>,
      booking_conditions = [''Pets are not allowed.'']\<rparr>"

definition hotel_p :: hotel where
  "hotel_p =
     \<lparr>hotel_id = ''iJhz'', destination_id = DNone, name = PNone,
      description = [],
      location = \<lparr>lat = PFloat 1.264751, lng = PFloat 103.824006, address = PNone,
                  city = PNone, country = PNone\<rparr>,
      amenities = \<lparr>general = [], room = [''tv'', ''coffee machine'']\<rparr>,
      images = \<lparr>rooms = [], site = [], img_amenities = []\<rparr>,
      booking_conditions = []\<rparr>"

definition hotel_c :: hotel where
  "hotel_c =
     \<lparr>hotel_id = ''f8c9'', destination_id = DInt 1122, name = PStr ''Hilton Shinjuku Tokyo'',
      description = [],
      location = \<lparr>lat = PNone, lng = PNone, address = PNone, city = PNone, country = PNone\<rparr>,
      amenities = \<lparr>general = [], room = []\<rparr>,
      images = \<lparr>rooms = [], site = [], img_amenities = []\<rparr>,
      booking_conditions = []\<rparr>"

text \<open>
  Raw supplier records in which every optional field is null. For Paperflies the keys
  \<open>location\<close> and \<open>booking_conditions\<close> are absent instead, the two keys that adapter
  reads with \<open>get\<close>.
\<close>

definition acme_blank :: "string \<Rightarrow> pyval \<Rightarrow> (string \<times> pyval) list" where
  "acme_blank i n =
     [(''Id'', PStr i), (''DestinationId'', PNone), (''Name'', n), (''Latitude'', PNone),
      (''Longitude'', PNone), (''Address'', PNone), (''City'', PNone), (''Country'', PNone),
      (''PostalCode'', PNone), (''Description'', PNone), (''Facilities'', PNone)]"

definition paperflies_blank :: "string \<Rightarrow> pyval \<Rightarrow> (string \<times> pyval) list" where
  "paperflies_blank i n =
     [(''hotel_id'', PStr i), (''destination_id'', PNone), (''hotel_name'', n),
      (''details'', PNone), (''amenities'', PNone), (''images'', PNone)]"

definition patagonia_blank :: "string \<Rightarrow> pyval \<Rightarrow> (string \<times> pyval) list" where
  "patagonia_blank i n =
     [(''id'', PStr i), (''destination'', PNone), (''name'', n), (''lat'', PNone),
      (''lng'', PNone), (''address'', PNone), (''info'', PNone), (''amenities'', PNone),
      (''images'', PNone)]"

text \<open>The canonical record with nothing but an id and a name, and an address.\<close>

definition blank_hotel :: "string \<Rightarrow> pyval \<Rightarrow> pyval \<Rightarrow> hotel" where
  "blank_hotel i n a =
     \<lparr>hotel_id = i, destination_id = DNone, name = n, description = [],
      location = \<lparr>lat = PNone, lng = PNone, address = a, city = PNone, country = PNone\<rparr>,
      amenities = \<lparr>general = [], room = []\<rparr>,
      images = \<lparr>rooms = [], site = [], img_amenities = []\<rparr>,
      booking_conditions = []\<rparr>"

text \<open>An Acme record that lists a facility twice, and a Paperflies record whose
  pre-classified amenities go beyond the two vocabularies.\<close>

definition acme_twice :: "(string \<times> pyval) list" where
  "acme_twice =
     [(''Id'', PStr ''iJhz''), (''DestinationId'', PInt 5432),
      (''Name'', PStr ''Beach Villas Singapore''), (''Latitude'', PNone),
      (''Longitude'', PNone), (''Address'', PStr '' 8 Sentosa Gateway, Beach Villas ''),
      (''City'', PStr ''Singapore''), (''Country'', PStr ''SG''),
      (''PostalCode'', PStr ''098269''), (''Description'', PStr ''short''),
      (''Facilities'', PList [PStr ''Aircon'', PStr '' Aircon'', PStr ''BusinessCenter''])]"

definition hotel_twice :: hotel where
  "hotel_twice =
     \<lparr>hotel_id = ''iJhz'', destination_id = DInt 5432, name = PStr ''Beach Villas Singapore'',
      description = ''short'',
      location = \<lparr>lat = PNone, lng = PNone,
                  address = PStr ''8 Sentosa Gateway, Beach Villas, 098269'',
                  city = PStr ''Singapore'', country = PStr ''SG''\<rparr>,
      amenities = \<lparr>general = [''business center''], room = [''aircon'', ''aircon'']\<rparr>,
      images = \<lparr>rooms = [], site = [], img_amenities = []\<rparr>,
      booking_conditions = []\<rparr>"

definition paperflies_extra :: "(string \<times> pyval) list" where
  "paperflies_extra =
     [(''hotel_id'', PStr ''iJhz''), (''destination_id'', PInt 5432),
      (''hotel_name'', PStr ''Beach Villas Singapore''),
      (''location'', PDict [(''address'', PStr ''8 Sentosa Gateway''),
                           (''country'', PStr ''Singapore'')]),
      (''details'', PStr ''Surrounded by tropical gardens''),
      (''amenities'', PDict [(''general'', PList [PStr ''outdoor pool'', PStr ''parking'']),
                            (''room'', PList [PStr ''tv'', PStr ''minibar''])]),
      (''images'', PDict [(''rooms'', PList [PDict [(''link'', PStr ''https://d2ey9sqrvkqdfs.cloudfront.net/0qZF/2.jpg''),
                                                   (''caption'', PStr ''Double room'')]]),
                         (''site'', PList [])]),
      (''booking_conditions'', PList [PStr ''Pets are not allowed.''])]"

definition hotel_extra :: hotel where
  "hotel_extra =
     \<lparr>hotel_id = ''iJhz'', destination_id = DInt 5432, name = PStr ''Beach Villas Singapore'',
      description = ''Surrounded by tropical gardens'',
      location = \<lparr>lat = PNone, lng = PNone, address = PStr ''8 Sentosa Gateway'',
                  city = PNone, country = PStr ''Singapore''\<rparr>,
      amenities = \<lparr>general = [''outdoor pool'', ''parking''], room = [''tv'', ''minibar'']\<rparr>,
      images = \<lparr>rooms = [\<lparr>link = PStr ''https://d2ey9sqrvkqdfs.cloudfront.net/0qZF/2.jpg'',
                         img_description = PStr ''Double room''\<rparr>],
                site = [], img_amenities = []\<rparr>,
      booking_conditions = [''Pets are not allowed.'']\<rparr>"

text \<open>
  The location rule in the words of the specification, with the case of two absent values
  made explicit: a present (truthy) existing value is kept; otherwise a present incoming
  value is adopted; when both are absent the existing value stays.
\<close>

definition first_present :: "pyval \<Rightarrow> pyval \<Rightarrow> pyval" where
  "first_present e h = (if truthy e then e else if truthy h then h else e)"

text \<open>A Patagonia record with an unclassified amenity list; \<open>Tub\<close> is in no vocabulary.\<close>

definition patagonia_ex :: "(string \<times> pyval) list" where
  "patagonia_ex =
     [(''id'', PStr ''iJhz''), (''destination'', PNone), (''name'', PNone),
      (''lat'', PFloat 1.264751), (''lng'', PFloat 103.824006), (''address'', PNone),
      (''info'', PNone),
      (''amenities'', PList [PStr ''Tv'', PStr '' Coffee machine'', PStr ''Tub'']),
      (''images'', PNone)]"

text \<open>
  What the specification asks of a location value across merges: a present value is not
  overwritten, and a value is not overwritten with an absent one.
\<close>

definition stays :: "pyval \<Rightarrow> pyval \<Rightarrow> bool" where
  "stays old new = ((truthy old \<longrightarrow> new = old) \<and> (new = old \<or> truthy new))"

definition loc_stays :: "location_rec \<Rightarrow> location_rec \<Rightarrow> bool" where
  "loc_stays l l' =
     (stays (lat l) (lat l') \<and> stays (lng l) (lng l') \<and> stays (address l) (address l') \<and>
      stays (city l) (city l') \<and> stays (country l) (country l'))"

text \<open>The shape of a mapping that \<open>merge_and_save\<close> builds: every key once, and every
  hotel under its own id.\<close>

definition keys_ok :: "(string \<times> hotel) list \<Rightarrow> bool" where
  "keys_ok ps = (distinct (map fst ps) \<and> list_all (\<lambda>p. hotel_id (snd p) = fst p) ps)"

section \<open>Facts about the merged mapping\<close>

lemmas str_defs =
  py_lower_def lower_char_def is_upper_def upper_letters_def lower_letters_def
  latin_upper_def latin_lower_def py_strip_def is_space_def

lemmas example_defs = hotel_a_def hotel_b_def hotel_p_def hotel_c_def init_service_def

lemmas parse_eval =
  bind_r_def getitem_def dict_get_def py_or_def or_empty_str_def Let_def
  Acme_parse_amenities_def paperflies_amenities_def image_list_def
  Patagonia_parse_amenities_def

lemma map_of_dict_set: "map_of (dict_set k v ps) = (map_of ps)(k \<mapsto> v)"
  by (induction ps) (auto simp: fun_eq_iff)

lemma hotels_merge_one_Some:
  "map_of (hotels svc) (hotel_id h) = Some e \<Longrightarrow>
   map_of (hotels (merge_one svc h)) = (map_of (hotels svc))(hotel_id h \<mapsto> merge_hotel e h)"
  by (simp add: merge_one_def map_of_dict_set)

lemma hotels_merge_one_None:
  "map_of (hotels svc) (hotel_id h) = None \<Longrightarrow>
   map_of (hotels (merge_one svc h)) = (map_of (hotels svc))(hotel_id h \<mapsto> h)"
  by (simp add: merge_one_def map_of_dict_set)

lemma merge_hotel_ids:
  "hotel_id (merge_hotel e h) = hotel_id e"
  "destination_id (merge_hotel e h) = destination_id e"
  by (simp_all add: merge_hotel_def)

lemma merge_one_keeps_ids:
  assumes "map_of (hotels svc) k = Some e"
  shows "\<exists>m. map_of (hotels (merge_one svc h)) k = Some m \<and> hotel_id m = hotel_id e \<and>
             destination_id m = destination_id e"
proof (cases "map_of (hotels svc) (hotel_id h)")
  case None
  with assms show ?thesis by (auto simp: hotels_merge_one_None)
next
  case (Some x)
  with assms show ?thesis by (auto simp: hotels_merge_one_Some merge_hotel_ids)
qed

lemma merge_and_save_keeps_ids:
  "map_of (hotels svc) k = Some e \<Longrightarrow>
   \<exists>m. map_of (hotels (merge_and_save svc data)) k = Some m \<and> hotel_id m = hotel_id e \<and>
       destination_id m = destination_id e"
proof (induction data arbitrary: svc e)
  case Nil
  then show ?case by simp
next
  case (Cons h data)
  from merge_one_keeps_ids[OF Cons.prems, of h] obtain m where
    m: "map_of (hotels (merge_one svc h)) k = Some m" "hotel_id m = hotel_id e"
       "destination_id m = destination_id e"
    by blast
  from Cons.IH[OF m(1)] m(2,3) show ?case by simp
qed

section \<open>The example records, parsed\<close>

lemmas vocab_defs = GENERAL_AMENITIES_def ROOM_AMENITIES_def

lemma acme_blank_parse: "Acme_parse (acme_blank i n) = Inr (blank_hotel i n (PStr []))"
  by (simp add: Acme_parse_def acme_blank_def blank_hotel_def parse_eval str_defs)

lemma paperflies_blank_parse: "Paperflies_parse (paperflies_blank i n) = Inr (blank_hotel i n PNone)"
  by (simp add: Paperflies_parse_def paperflies_blank_def blank_hotel_def parse_eval)

lemma patagonia_blank_parse: "Patagonia_parse (patagonia_blank i n) = Inr (blank_hotel i n PNone)"
  by (simp add: Patagonia_parse_def patagonia_blank_def blank_hotel_def parse_eval)

lemma acme_twice_parse: "Acme_parse acme_twice = Inr hotel_twice"
  by (simp add: Acme_parse_def acme_twice_def hotel_twice_def parse_eval str_defs vocab_defs)

lemma paperflies_extra_parse: "Paperflies_parse paperflies_extra = Inr hotel_extra"
  by (simp add: Paperflies_parse_def paperflies_extra_def hotel_extra_def parse_eval)

lemma patagonia_ex_parse: "Patagonia_parse patagonia_ex = Inr hotel_p"
  by (simp add: Patagonia_parse_def patagonia_ex_def hotel_p_def parse_eval str_defs vocab_defs)

section \<open>The query layer: claims\<close>

text \<open>
  C9. \<open>find\<close> is a read-only query: the service it returns, that is the merged mapping
  with its keys and every field of every hotel, is the service it was given, whatever the
  two filters are.
\<close>

theorem find_read_only: "snd (find_hotels svc hotel_ids destination_ids) = svc"
  by (simp add: find_hotels_def)

text \<open>
  C7. With two sets of strings as filters, \<open>find\<close> returns a hotel of the merged mapping
  exactly when (\<open>hotel_ids\<close> is empty or holds the hotel's id) and (\<open>destination_ids\<close>
  is empty or holds the string form of the hotel's destination id). With no hotel ids and
  some destination ids, the result is the hotels of the mapping whose destination matches,
  in the mapping's order.
\<close>

theorem find_iff:
  "(hotel \<in> set (fst (find_hotels svc hotel_ids destination_ids)) \<longleftrightarrow>
      hotel \<in> set (map snd (hotels svc)) \<and>
      (hotel_ids = {} \<or> hotel_id hotel \<in> hotel_ids) \<and>
      (destination_ids = {} \<or> py_str (destination_id hotel) \<in> destination_ids)) \<and>
   (destination_ids \<noteq> {} \<longrightarrow>
      fst (find_hotels svc {} destination_ids) =
        filter (\<lambda>h. py_str (destination_id h) \<in> destination_ids) (map snd (hotels svc)))"
  by (simp add: find_hotels_def)

theorem find_iff_witness:
  "{''1122''} \<noteq> ({} :: string set) \<and>
   fst (find_hotels (merge_and_save init_service [hotel_a, hotel_c]) {} {''1122''}) = [hotel_c] \<and>
   hotel_a \<notin> set (fst (find_hotels (merge_and_save init_service [hotel_a, hotel_c]) {} {''1122''}))"
  using find_iff [of hotel_a "merge_and_save init_service [hotel_a, hotel_c]" "{}" "{''1122''}"]
  by (simp add: example_defs merge_one_def str_int_def digit_char_def)

section \<open>The reconciliation engine: claims\<close>

lemmas merge_eval =
  example_defs merge_one_def merge_hotel_def py_or_def merge_location_def
  fill_def list_set_def append_new_def

text \<open>
  C3. When a record arrives for an id that is already in the mapping, the merged name is
  the incoming record's name if that name is truthy (a non-empty string), and the existing
  name otherwise (incoming name \<open>None\<close> or empty): the later non-empty name wins.
\<close>

theorem merge_name:
  assumes "map_of (hotels svc) (hotel_id hotel) = Some existing"
  shows "map_option name (map_of (hotels (merge_and_save svc [hotel])) (hotel_id hotel)) =
           Some (if truthy (name hotel) then name hotel else name existing)"
  using assms by (simp add: hotels_merge_one_Some merge_hotel_def py_or_def)

theorem merge_name_witness:
  "map_of (hotels (merge_and_save init_service [hotel_a])) (hotel_id hotel_b) = Some hotel_a \<and>
   map_option name
     (map_of (hotels (merge_and_save (merge_and_save init_service [hotel_a]) [hotel_b]))
        (hotel_id hotel_b)) = Some (PStr ''Beach Villas'') \<and>
   map_of (hotels (merge_and_save init_service [hotel_a])) (hotel_id hotel_p) = Some hotel_a \<and>
   map_option name
     (map_of (hotels (merge_and_save (merge_and_save init_service [hotel_a]) [hotel_p]))
        (hotel_id hotel_p)) = Some (PStr ''Beach Villas Singapore'')"
  using merge_name [of "merge_and_save init_service [hotel_a]" hotel_b hotel_a]
        merge_name [of "merge_and_save init_service [hotel_a]" hotel_p hotel_a]
  by (simp add: merge_eval)

text \<open>
  C2. For two records \<open>a\<close> and \<open>b\<close> with the same id, merged in this order into an empty
  service, the merged description is \<open>b\<close>'s when it is strictly longer and \<open>a\<close>'s
  otherwise, so the existing one stays on a tie. When the two lengths differ, merging
  \<open>a\<close> then \<open>b\<close> and merging \<open>b\<close> then \<open>a\<close> give the same description, into any
  service.
\<close>

theorem merge_description:
  assumes "hotel_id a = hotel_id b"
  shows "map_option description
           (map_of (hotels (merge_and_save init_service [a, b])) (hotel_id a)) =
           Some (if length (description a) < length (description b)
                 then description b else description a) \<and>
         (length (description a) \<noteq> length (description b) \<longrightarrow>
            map_option description (map_of (hotels (merge_and_save svc [a, b])) (hotel_id a)) =
            map_option description (map_of (hotels (merge_and_save svc [b, a])) (hotel_id a)))"
proof
  show "map_option description
          (map_of (hotels (merge_and_save init_service [a, b])) (hotel_id a)) =
          Some (if length (description a) < length (description b)
                then description b else description a)"
    using assms by (simp add: init_service_def merge_one_def map_of_dict_set merge_hotel_def)
next
  show "length (description a) \<noteq> length (description b) \<longrightarrow>
          map_option description (map_of (hotels (merge_and_save svc [a, b])) (hotel_id a)) =
          map_option description (map_of (hotels (merge_and_save svc [b, a])) (hotel_id a))"
  proof (cases "map_of (hotels svc) (hotel_id a)")
    case None
    with assms show ?thesis
      by (simp add: hotels_merge_one_Some hotels_merge_one_None merge_hotel_def)
  next
    case (Some e)
    with assms show ?thesis
      by (simp add: hotels_merge_one_Some hotels_merge_one_None merge_hotel_def)
  qed
qed

theorem merge_description_witness:
  "hotel_id hotel_a = hotel_id hotel_b \<and>
   length (description hotel_a) \<noteq> length (description hotel_b) \<and>
   map_option description
     (map_of (hotels (merge_and_save init_service [hotel_a, hotel_b])) ''iJhz'') =
     Some ''a longer and more complete description of the hotel'' \<and>
   map_option description
     (map_of (hotels (merge_and_save init_service [hotel_b, hotel_a])) ''iJhz'') =
     Some ''a longer and more complete description of the hotel''"
  using merge_description [of hotel_a hotel_b init_service]
  by (simp add: merge_eval)

text \<open>
  C8. A hotel that is in the mapping under a key keeps its \<open>id\<close> and its
  \<open>destination_id\<close> through every later run of records, whatever ids they carry; and a
  record that registers a new id fixes both fields for all the records that follow it.
\<close>

theorem ids_never_altered:
  "(map_of (hotels svc) k = Some e \<longrightarrow>
      (\<exists>m. map_of (hotels (merge_and_save svc data)) k = Some m \<and>
           hotel_id m = hotel_id e \<and> destination_id m = destination_id e)) \<and>
   (map_of (hotels svc) (hotel_id h) = None \<longrightarrow>
      (\<exists>m. map_of (hotels (merge_and_save svc (h # data))) (hotel_id h) = Some m \<and>
           hotel_id m = hotel_id h \<and> destination_id m = destination_id h))"
proof (intro conjI impI)
  assume "map_of (hotels svc) k = Some e"
  then show "\<exists>m. map_of (hotels (merge_and_save svc data)) k = Some m \<and>
           hotel_id m = hotel_id e \<and> destination_id m = destination_id e"
    by (rule merge_and_save_keeps_ids)
next
  assume "map_of (hotels svc) (hotel_id h) = None"
  then have "map_of (hotels (merge_one svc h)) (hotel_id h) = Some h"
    by (simp add: hotels_merge_one_None)
  from merge_and_save_keeps_ids [OF this, of data]
  show "\<exists>m. map_of (hotels (merge_and_save svc (h # data))) (hotel_id h) = Some m \<and>
           hotel_id m = hotel_id h \<and> destination_id m = destination_id h"
    by simp
qed

theorem ids_never_altered_witness:
  "map_of (hotels (merge_and_save init_service [hotel_a])) ''iJhz'' = Some hotel_a \<and>
   map_of (hotels init_service) (hotel_id hotel_a) = None \<and>
   map_option hotel_id
     (map_of (hotels (merge_and_save init_service [hotel_a, hotel_c, hotel_p, hotel_b])) ''iJhz'')
     = Some ''iJhz'' \<and>
   map_option destination_id
     (map_of (hotels (merge_and_save init_service [hotel_a, hotel_c, hotel_p, hotel_b])) ''iJhz'')
     = Some (DInt 5432)"
  using ids_never_altered [of "merge_and_save init_service [hotel_a]" "''iJhz''" hotel_a
          "[hotel_c, hotel_p, hotel_b]" hotel_a]
        ids_never_altered [of init_service "''iJhz''" hotel_a
          "[hotel_c, hotel_p, hotel_b]" hotel_a]
  by (simp add: merge_eval)

section \<open>The location rule: claim\<close>

lemma fill_first_present: "fill e h = first_present e h"
  by (simp add: fill_def first_present_def)

lemma stays_fill: "stays e (fill e h)"
  by (simp add: stays_def fill_def)

lemma stays_trans: "stays a b \<Longrightarrow> stays b c \<Longrightarrow> stays a c"
  by (auto simp: stays_def)

lemma stays_refl: "stays a a"
  by (simp add: stays_def)

lemma loc_stays_merge: "loc_stays (location e) (location (merge_hotel e h))"
  by (simp add: loc_stays_def merge_hotel_def merge_location_def stays_fill)

lemma loc_stays_trans: "loc_stays a b \<Longrightarrow> loc_stays b c \<Longrightarrow> loc_stays a c"
  unfolding loc_stays_def by (blast intro: stays_trans)

lemma merge_one_loc_stays:
  assumes "map_of (hotels svc) k = Some e"
  shows "\<exists>m. map_of (hotels (merge_one svc h)) k = Some m \<and> loc_stays (location e) (location m)"
proof (cases "map_of (hotels svc) (hotel_id h)")
  case None
  with assms show ?thesis by (auto simp: hotels_merge_one_None loc_stays_def stays_refl)
next
  case (Some x)
  with assms show ?thesis
    by (auto simp: hotels_merge_one_Some loc_stays_merge) (simp add: loc_stays_def stays_refl)
qed

lemma merge_and_save_loc_stays:
  "map_of (hotels svc) k = Some e \<Longrightarrow>
   \<exists>m. map_of (hotels (merge_and_save svc data)) k = Some m \<and> loc_stays (location e) (location m)"
proof (induction data arbitrary: svc e)
  case Nil
  then show ?case by (simp add: loc_stays_def stays_refl)
next
  case (Cons h data)
  from merge_one_loc_stays[OF Cons.prems, of h] obtain m where
    m: "map_of (hotels (merge_one svc h)) k = Some m" "loc_stays (location e) (location m)"
    by blast
  from Cons.IH[OF m(1)] m(2) show ?case by (auto intro: loc_stays_trans)
qed

text \<open>
  C1 (amended). When a record arrives for an id that is already in the mapping, each of the
  five location fields is filled on its own: a present (truthy) existing value is kept;
  otherwise the incoming value is adopted if it is present, and the existing value stays
  when both are absent. Through any run of later records, a present value of the entry is
  never overwritten, and no value is overwritten with an absent one.
\<close>

theorem location_fill:
  assumes "map_of (hotels svc) (hotel_id hotel) = Some existing"
  shows "map_option location (map_of (hotels (merge_and_save svc [hotel])) (hotel_id hotel)) =
           Some \<lparr>lat = first_present (lat (location existing)) (lat (location hotel)),
                 lng = first_present (lng (location existing)) (lng (location hotel)),
                 address = first_present (address (location existing)) (address (location hotel)),
                 city = first_present (city (location existing)) (city (location hotel)),
                 country = first_present (country (location existing)) (country (location hotel))\<rparr> \<and>
         (\<exists>m. map_of (hotels (merge_and_save svc data)) (hotel_id hotel) = Some m \<and>
              stays (lat (location existing)) (lat (location m)) \<and>
              stays (lng (location existing)) (lng (location m)) \<and>
              stays (address (location existing)) (address (location m)) \<and>
              stays (city (location existing)) (city (location m)) \<and>
              stays (country (location existing)) (country (location m)))"
proof
  show "map_option location (map_of (hotels (merge_and_save svc [hotel])) (hotel_id hotel)) =
           Some \<lparr>lat = first_present (lat (location existing)) (lat (location hotel)),
                 lng = first_present (lng (location existing)) (lng (location hotel)),
                 address = first_present (address (location existing)) (address (location hotel)),
                 city = first_present (city (location existing)) (city (location hotel)),
                 country = first_present (country (location existing)) (country (location hotel))\<rparr>"
    using assms
    by (simp add: hotels_merge_one_Some merge_hotel_def merge_location_def fill_first_present)
next
  from merge_and_save_loc_stays [OF assms, of data]
  show "\<exists>m. map_of (hotels (merge_and_save svc data)) (hotel_id hotel) = Some m \<and>
              stays (lat (location existing)) (lat (location m)) \<and>
              stays (lng (location existing)) (lng (location m)) \<and>
              stays (address (location existing)) (address (location m)) \<and>
              stays (city (location existing)) (city (location m)) \<and>
              stays (country (location existing)) (country (location m))"
    by (simp add: loc_stays_def)
qed

theorem location_fill_witness:
  "map_of (hotels (merge_and_save init_service [hotel_a])) (hotel_id hotel_b) = Some hotel_a \<and>
   map_option location
     (map_of (hotels (merge_and_save (merge_and_save init_service [hotel_a]) [hotel_b]))
        (hotel_id hotel_b)) =
     Some \<lparr>lat = PInt 1, lng = PInt 103, address = PStr ''8 Sentosa Gateway'',
           city = PStr ''Singapore'', country = PStr ''SG''\<rparr>"
  using location_fill [of "merge_and_save init_service [hotel_a]" hotel_b hotel_a "[hotel_b]"]
  by (simp add: merge_eval first_present_def stays_def)

text \<open>
  C1 as first stated has the incoming value adopted whenever the existing one is
  absent. Acme turns a null address into the empty string and Paperflies leaves a missing
  address \<open>None\<close>; merging the second into the first keeps the empty string.
\<close>

theorem location_fill_counterexample:
  "Acme_parse (acme_blank ''iJhz'' PNone) = Inr (blank_hotel ''iJhz'' PNone (PStr [])) \<and>
   Paperflies_parse (paperflies_blank ''iJhz'' PNone) = Inr (blank_hotel ''iJhz'' PNone PNone) \<and>
   \<not> truthy (address (location (blank_hotel ''iJhz'' PNone (PStr [])))) \<and>
   address (location (blank_hotel ''iJhz'' PNone PNone)) = PNone \<and>
   map_option (\<lambda>m. address (location m))
     (map_of (hotels (merge_and_save init_service
        [blank_hotel ''iJhz'' PNone (PStr []), blank_hotel ''iJhz'' PNone PNone])) ''iJhz'') =
     Some (PStr []) \<and>
   PStr [] \<noteq> PNone"
  by (simp add: acme_blank_parse paperflies_blank_parse)
     (simp add: blank_hotel_def merge_eval)

section \<open>The classifier and the adapters: claims\<close>

lemma space_upper_concat:
  "space_upper cs = concat (map (\<lambda>x. if is_upper x then [CHR '' '', x] else [x]) cs)"
  by (induction cs) simp_all

lemma acme_loop_strs:
  "acme_loop (map PStr ts) g r =
     Inr \<lparr>general = g @ filter (\<lambda>n. n \<in> set GENERAL_AMENITIES)
                          (map (\<lambda>t. camel_to_snake_case (py_strip t)) ts),
          room = r @ filter (\<lambda>n. n \<in> set ROOM_AMENITIES)
                       (map (\<lambda>t. camel_to_snake_case (py_strip t)) ts)\<rparr>"
  by (induction ts arbitrary: g r) (simp_all add: Let_def)

lemma Acme_parse_amenities_strs:
  "Acme_parse_amenities (PList (map PStr ts)) =
     Inr \<lparr>general = filter (\<lambda>n. n \<in> set GENERAL_AMENITIES)
                      (map (\<lambda>t. camel_to_snake_case (py_strip t)) ts),
          room = filter (\<lambda>n. n \<in> set ROOM_AMENITIES)
                   (map (\<lambda>t. camel_to_snake_case (py_strip t)) ts)\<rparr>"
  using acme_loop_strs [of ts "[]" "[]"] by (simp add: Acme_parse_amenities_def bind_r_def)

lemma lower_char_space: "lower_char (CHR '' '') = CHR '' ''"
  by (simp add: str_defs)

lemma length_space_upper: "length (space_upper cs) = length cs + length (filter is_upper cs)"
  by (induction cs) simp_all

lemma despace_space_upper:
  "filter (\<lambda>c. c \<noteq> CHR '' '') (py_lower (space_upper cs)) =
   filter (\<lambda>c. c \<noteq> CHR '' '') (py_lower cs)"
  by (induction cs) (simp_all add: py_lower_def lower_char_space)

lemma despace_camel:
  "filter (\<lambda>c. c \<noteq> CHR '' '') (camel_to_snake_case s) =
   filter (\<lambda>c. c \<noteq> CHR '' '') (py_lower s)"
proof (cases s)
  case Nil
  then show ?thesis by (simp add: py_lower_def)
next
  case (Cons c cs)
  have "py_lower (c # space_upper cs) = lower_char c # py_lower (space_upper cs)"
    by (simp add: py_lower_def)
  moreover have "py_lower (c # cs) = lower_char c # py_lower cs"
    by (simp add: py_lower_def)
  ultimately show ?thesis using Cons despace_space_upper [of cs] by simp
qed

lemma length_camel:
  "length (camel_to_snake_case s) = length s + length (filter is_upper (tl s))"
  by (cases s) (simp_all add: py_lower_def length_space_upper)

lemma vocab_despace_distinct:
  "distinct (map (filter (\<lambda>c. c \<noteq> CHR '' '')) (GENERAL_AMENITIES @ ROOM_AMENITIES))"
  by (simp add: vocab_defs)

lemma camel_not_in_vocab:
  assumes up: "list_ex is_upper (tl s)"
    and v: "py_lower s \<in> set (GENERAL_AMENITIES @ ROOM_AMENITIES)"
  shows "camel_to_snake_case s \<notin> set (GENERAL_AMENITIES @ ROOM_AMENITIES)"
proof
  assume n: "camel_to_snake_case s \<in> set (GENERAL_AMENITIES @ ROOM_AMENITIES)"
  have inj: "inj_on (filter (\<lambda>c. c \<noteq> CHR '' '')) (set (GENERAL_AMENITIES @ ROOM_AMENITIES))"
    using vocab_despace_distinct by (simp only: distinct_map)
  from inj_onD [OF inj despace_camel n v]
  have "camel_to_snake_case s = py_lower s" .
  then have "length (camel_to_snake_case s) = length s"
    by (simp add: py_lower_def)
  moreover from up have "filter is_upper (tl s) \<noteq> []"
    by (auto simp: list_ex_iff filter_empty_conv)
  ultimately show False
    by (simp add: length_camel)
qed

text \<open>
  C10. The normalizer puts a space in front of every uppercase letter that is not the first
  character and lowercases the result. The Acme classifier keeps a facility exactly when
  its stripped, normalized form is a vocabulary entry: the general list is the normalized
  forms that are in GENERAL, the room list those in ROOM, in the order of the facilities.
  So a facility whose stripped form has an uppercase letter after its first character, and
  which spells a vocabulary entry when it is only lowercased, is dropped: its normalized
  form has a space the entry has not, and is in neither vocabulary. For \<open>WiFi\<close> the
  normalizer returns \<open>wi fi\<close>, which is not the entry \<open>wifi\<close>, and the classifier puts
  \<open>WiFi\<close> into neither list, while it puts \<open>wifi\<close> into the general list.
\<close>

theorem wifi_dropped:
  "camel_to_snake_case (c # cs) =
     py_lower (c # concat (map (\<lambda>x. if is_upper x then [CHR '' '', x] else [x]) cs)) \<and>
   Acme_parse_amenities (PList (map PStr ts)) =
     Inr \<lparr>general = filter (\<lambda>n. n \<in> set GENERAL_AMENITIES)
                      (map (\<lambda>t. camel_to_snake_case (py_strip t)) ts),
          room = filter (\<lambda>n. n \<in> set ROOM_AMENITIES)
                   (map (\<lambda>t. camel_to_snake_case (py_strip t)) ts)\<rparr> \<and>
   (list_ex is_upper (tl (py_strip t)) \<and>
    py_lower (py_strip t) \<in> set (GENERAL_AMENITIES @ ROOM_AMENITIES) \<longrightarrow>
      camel_to_snake_case (py_strip t) \<noteq> py_lower (py_strip t) \<and>
      camel_to_snake_case (py_strip t) \<notin> set GENERAL_AMENITIES \<and>
      camel_to_snake_case (py_strip t) \<notin> set ROOM_AMENITIES \<and>
      Acme_parse_amenities (PList [PStr t]) = Inr \<lparr>general = [], room = []\<rparr>) \<and>
   camel_to_snake_case ''WiFi'' = ''wi fi'' \<and>
   ''wi fi'' \<noteq> ''wifi'' \<and>
   ''wi fi'' \<notin> set GENERAL_AMENITIES \<and> ''wi fi'' \<notin> set ROOM_AMENITIES \<and>
   ''wifi'' \<in> set GENERAL_AMENITIES \<and>
   Acme_parse_amenities (PList [PStr ''WiFi'']) = Inr \<lparr>general = [], room = []\<rparr> \<and>
   Acme_parse_amenities (PList [PStr ''wifi'']) = Inr \<lparr>general = [''wifi''], room = []\<rparr>"
proof -
  have norm: "camel_to_snake_case (c # cs) =
     py_lower (c # concat (map (\<lambda>x. if is_upper x then [CHR '' '', x] else [x]) cs))"
    by (simp add: space_upper_concat)
  have drop: "camel_to_snake_case (py_strip t) \<noteq> py_lower (py_strip t) \<and>
      camel_to_snake_case (py_strip t) \<notin> set GENERAL_AMENITIES \<and>
      camel_to_snake_case (py_strip t) \<notin> set ROOM_AMENITIES \<and>
      Acme_parse_amenities (PList [PStr t]) = Inr \<lparr>general = [], room = []\<rparr>"
    if up: "list_ex is_upper (tl (py_strip t))"
      and v: "py_lower (py_strip t) \<in> set (GENERAL_AMENITIES @ ROOM_AMENITIES)"
  proof -
    from camel_not_in_vocab [OF up v]
    have n: "camel_to_snake_case (py_strip t) \<notin> set GENERAL_AMENITIES"
            "camel_to_snake_case (py_strip t) \<notin> set ROOM_AMENITIES"
      by simp_all
    from camel_not_in_vocab [OF up v] v
    have ne: "camel_to_snake_case (py_strip t) \<noteq> py_lower (py_strip t)"
      by metis
    from Acme_parse_amenities_strs [of "[t]"] n
    have "Acme_parse_amenities (PList [PStr t]) = Inr \<lparr>general = [], room = []\<rparr>"
      by simp
    with n ne show ?thesis by simp
  qed
  have w: "camel_to_snake_case ''WiFi'' = ''wi fi''"
    by (simp add: str_defs)
  have g: "''wi fi'' \<notin> set GENERAL_AMENITIES" by (simp add: vocab_defs)
  have r: "''wi fi'' \<notin> set ROOM_AMENITIES" by (simp add: vocab_defs)
  have k: "''wifi'' \<in> set GENERAL_AMENITIES" "''wifi'' \<notin> set ROOM_AMENITIES"
    by (simp_all add: vocab_defs)
  have s: "py_strip ''WiFi'' = ''WiFi''" "py_strip ''wifi'' = ''wifi''"
    by (simp_all add: str_defs)
  have wl: "camel_to_snake_case ''wifi'' = ''wifi''"
    by (simp add: str_defs)
  have d1: "Acme_parse_amenities (PList [PStr ''WiFi'']) = Inr \<lparr>general = [], room = []\<rparr>"
    using Acme_parse_amenities_strs [of "[''WiFi'']"] g r
    by (simp add: s w del: camel_to_snake_case.simps)
  have d2: "Acme_parse_amenities (PList [PStr ''wifi'']) = Inr \<lparr>general = [''wifi''], room = []\<rparr>"
    using Acme_parse_amenities_strs [of "[''wifi'']"] k
    by (simp add: s wl del: camel_to_snake_case.simps)
  show ?thesis
    using norm Acme_parse_amenities_strs [of ts] drop w g r k(1) d1 d2
    by (intro conjI impI) simp_all
qed

theorem wifi_dropped_witness:
  "list_ex is_upper (tl (py_strip ''WiFi '')) \<and>
   py_lower (py_strip ''WiFi '') \<in> set (GENERAL_AMENITIES @ ROOM_AMENITIES) \<and>
   camel_to_snake_case (py_strip ''WiFi '') = ''wi fi'' \<and>
   Acme_parse_amenities (PList [PStr ''WiFi '']) = Inr \<lparr>general = [], room = []\<rparr> \<and>
   Acme_parse_amenities (PList (map PStr [''WiFi '', '' Aircon'', ''BusinessCenter'', ''Pool''])) =
     Inr \<lparr>general = [''business center''], room = [''aircon'']\<rparr>"
  using wifi_dropped [of "CHR ''W''" "''iFi''"
          "[''WiFi '', '' Aircon'', ''BusinessCenter'', ''Pool'']" "''WiFi ''"]
  by (simp add: str_defs vocab_defs)

text \<open>
  C6 as first stated, that no adapter lets a null into a text field, fails for \<open>name\<close>: a null
  \<open>Name\<close> in an Acme record is the name of the parsed hotel.
\<close>

theorem null_name_counterexample:
  "Acme_parse (acme_blank ''iJhz'' PNone) = Inr (blank_hotel ''iJhz'' PNone (PStr [])) \<and>
   name (blank_hotel ''iJhz'' PNone (PStr [])) = PNone"
  by (simp add: acme_blank_parse) (simp add: blank_hotel_def)

text \<open>
  C6 (amended). For each adapter, a raw record whose optional fields are all null (for
  Paperflies: \<open>location\<close> and \<open>booking_conditions\<close> absent, the rest null) parses to
  a hotel whose description is the empty string and whose amenity lists, image lists and
  booking conditions are empty lists. The name is passed through as supplied, null
  included; the Acme address is the empty string, the other location values stay
  \<open>None\<close>.
\<close>

theorem blank_records_parse:
  "Acme_parse (acme_blank i n) =
     Inr \<lparr>hotel_id = i, destination_id = DNone, name = n, description = [],
          location = \<lparr>lat = PNone, lng = PNone, address = PStr [], city = PNone, country = PNone\<rparr>,
          amenities = \<lparr>general = [], room = []\<rparr>,
          images = \<lparr>rooms = [], site = [], img_amenities = []\<rparr>,
          booking_conditions = []\<rparr> \<and>
   Paperflies_parse (paperflies_blank i n) =
     Inr \<lparr>hotel_id = i, destination_id = DNone, name = n, description = [],
          location = \<lparr>lat = PNone, lng = PNone, address = PNone, city = PNone, country = PNone\<rparr>,
          amenities = \<lparr>general = [], room = []\<rparr>,
          images = \<lparr>rooms = [], site = [], img_amenities = []\<rparr>,
          booking_conditions = []\<rparr> \<and>
   Patagonia_parse (patagonia_blank i n) =
     Inr \<lparr>hotel_id = i, destination_id = DNone, name = n, description = [],
          location = \<lparr>lat = PNone, lng = PNone, address = PNone, city = PNone, country = PNone\<rparr>,
          amenities = \<lparr>general = [], room = []\<rparr>,
          images = \<lparr>rooms = [], site = [], img_amenities = []\<rparr>,
          booking_conditions = []\<rparr>"
  by (simp add: acme_blank_parse paperflies_blank_parse patagonia_blank_parse blank_hotel_def)

lemma acme_loop_vocab:
  "acme_loop xs g r = Inr am \<Longrightarrow> set g \<subseteq> set GENERAL_AMENITIES \<Longrightarrow>
   set r \<subseteq> set ROOM_AMENITIES \<Longrightarrow>
   set (general am) \<subseteq> set GENERAL_AMENITIES \<and> set (room am) \<subseteq> set ROOM_AMENITIES"
proof (induction xs g r rule: acme_loop.induct)
  case (1 g r)
  then show ?case by auto
next
  case (2 s rest g r)
  show ?case
    by (rule "2.IH" [OF refl refl refl]) (use "2.prems" in \<open>auto simp: Let_def\<close>)
qed simp_all

lemma Acme_parse_amenities_vocab:
  "Acme_parse_amenities v = Inr am \<Longrightarrow>
   set (general am) \<subseteq> set GENERAL_AMENITIES \<and> set (room am) \<subseteq> set ROOM_AMENITIES"
  by (auto simp: Acme_parse_amenities_def bind_r_def split: sum.splits dest: acme_loop_vocab)

lemma Patagonia_parse_amenities_vocab:
  "Patagonia_parse_amenities v = Inr am \<Longrightarrow>
   set (general am) \<subseteq> set GENERAL_AMENITIES \<and> set (room am) \<subseteq> set ROOM_AMENITIES"
  by (auto simp: Patagonia_parse_amenities_def bind_r_def split: sum.splits)

lemma Acme_parse_amenities_of:
  "Acme_parse dto = Inr h \<Longrightarrow> \<exists>v. Acme_parse_amenities v = Inr (amenities h)"
  by (auto simp: Acme_parse_def bind_r_def split: sum.splits)

lemma Patagonia_parse_amenities_of:
  "Patagonia_parse dto = Inr h \<Longrightarrow> \<exists>v. Patagonia_parse_amenities v = Inr (amenities h)"
  by (auto simp: Patagonia_parse_def bind_r_def split: sum.splits)

text \<open>
  C5 (amended). Every hotel that the Acme or the Patagonia adapter parses has only GENERAL
  vocabulary values in \<open>amenities.general\<close> and only ROOM vocabulary values in
  \<open>amenities.room\<close>. When the merge folds a record into the entry of its id, each of the
  two merged lists has no duplicate and holds exactly the values of the two lists it
  was made from.
\<close>

theorem amenities_vocabulary:
  "(Acme_parse dto = Inr h \<longrightarrow>
      set (general (amenities h)) \<subseteq> set GENERAL_AMENITIES \<and>
      set (room (amenities h)) \<subseteq> set ROOM_AMENITIES) \<and>
   (Patagonia_parse dto' = Inr h' \<longrightarrow>
      set (general (amenities h')) \<subseteq> set GENERAL_AMENITIES \<and>
      set (room (amenities h')) \<subseteq> set ROOM_AMENITIES) \<and>
   (map_of (hotels svc) (hotel_id hotel) = Some existing \<longrightarrow>
      (\<exists>m. map_of (hotels (merge_and_save svc [hotel])) (hotel_id hotel) = Some m \<and>
           distinct (general (amenities m)) \<and> distinct (room (amenities m)) \<and>
           set (general (amenities m)) =
             set (general (amenities existing)) \<union> set (general (amenities hotel)) \<and>
           set (room (amenities m)) =
             set (room (amenities existing)) \<union> set (room (amenities hotel))))"
proof -
  have acme: "set (general (amenities h)) \<subseteq> set GENERAL_AMENITIES \<and>
      set (room (amenities h)) \<subseteq> set ROOM_AMENITIES" if "Acme_parse dto = Inr h"
  proof -
    from that obtain v where "Acme_parse_amenities v = Inr (amenities h)"
      using Acme_parse_amenities_of by blast
    then show ?thesis by (rule Acme_parse_amenities_vocab)
  qed
  have patagonia: "set (general (amenities h')) \<subseteq> set GENERAL_AMENITIES \<and>
      set (room (amenities h')) \<subseteq> set ROOM_AMENITIES" if "Patagonia_parse dto' = Inr h'"
  proof -
    from that obtain v where "Patagonia_parse_amenities v = Inr (amenities h')"
      using Patagonia_parse_amenities_of by blast
    then show ?thesis by (rule Patagonia_parse_amenities_vocab)
  qed
  have merged: "\<exists>m. map_of (hotels (merge_and_save svc [hotel])) (hotel_id hotel) = Some m \<and>
           distinct (general (amenities m)) \<and> distinct (room (amenities m)) \<and>
           set (general (amenities m)) =
             set (general (amenities existing)) \<union> set (general (amenities hotel)) \<and>
           set (room (amenities m)) =
             set (room (amenities existing)) \<union> set (room (amenities hotel))"
    if "map_of (hotels svc) (hotel_id hotel) = Some existing"
    using that by (simp add: hotels_merge_one_Some merge_hotel_def list_set_def)
  show ?thesis
    using acme patagonia merged by (intro conjI impI) simp_all
qed

theorem amenities_vocabulary_witness:
  "Acme_parse acme_twice = Inr hotel_twice \<and>
   set (general (amenities hotel_twice)) \<subseteq> set GENERAL_AMENITIES \<and>
   Patagonia_parse patagonia_ex = Inr hotel_p \<and>
   set (room (amenities hotel_p)) \<subseteq> set ROOM_AMENITIES \<and>
   map_of (hotels (merge_and_save init_service [hotel_a])) (hotel_id hotel_b) = Some hotel_a \<and>
   map_option (\<lambda>m. set (room (amenities m)))
     (map_of (hotels (merge_and_save (merge_and_save init_service [hotel_a]) [hotel_b]))
        (hotel_id hotel_b)) = Some {''tv'', ''aircon''}"
  using amenities_vocabulary [of acme_twice hotel_twice patagonia_ex hotel_p
          "merge_and_save init_service [hotel_a]" hotel_b hotel_a]
        acme_twice_parse patagonia_ex_parse
  by (simp add: merge_eval)

text \<open>
  C5 as first stated covers every adapter and forbids duplicates everywhere. Acme
  keeps a facility that is listed twice twice, and Paperflies passes its pre-classified
  amenities through, whatever they are.
\<close>

theorem amenities_vocabulary_counterexample:
  "Acme_parse acme_twice = Inr hotel_twice \<and>
   \<not> distinct (room (amenities hotel_twice)) \<and>
   Paperflies_parse paperflies_extra = Inr hotel_extra \<and>
   \<not> set (general (amenities hotel_extra)) \<subseteq> set GENERAL_AMENITIES \<and>
   \<not> set (room (amenities hotel_extra)) \<subseteq> set ROOM_AMENITIES"
  by (simp add: acme_twice_parse paperflies_extra_parse)
     (simp add: hotel_twice_def hotel_extra_def vocab_defs)

section \<open>Merging a mapping into itself: claim\<close>

lemma map_fst_dict_set:
  "map fst (dict_set k v ps) = (if k \<in> fst ` set ps then map fst ps else map fst ps @ [k])"
  by (induction ps) auto

lemma set_dict_set:
  "set (dict_set k v ps) \<subseteq> insert (k, v) (set ps)"
  by (induction ps) auto

lemma keys_ok_dict_set:
  "keys_ok ps \<Longrightarrow> hotel_id v = k \<Longrightarrow> keys_ok (dict_set k v ps)"
  using set_dict_set [of k v ps]
  by (auto simp: keys_ok_def map_fst_dict_set list_all_iff)

lemma keys_ok_lookup: "keys_ok ps \<Longrightarrow> map_of ps k = Some e \<Longrightarrow> hotel_id e = k"
  by (auto simp: keys_ok_def list_all_iff dest: map_of_SomeD)

lemma keys_ok_merge_one: "keys_ok (hotels svc) \<Longrightarrow> keys_ok (hotels (merge_one svc h))"
  by (auto simp: merge_one_def merge_hotel_ids keys_ok_lookup intro!: keys_ok_dict_set
           split: option.splits)

lemma keys_ok_merge_and_save:
  "keys_ok (hotels svc) \<Longrightarrow> keys_ok (hotels (merge_and_save svc data))"
  by (induction data arbitrary: svc) (simp_all add: keys_ok_merge_one)

lemma keys_ok_init: "keys_ok (hotels init_service)"
  by (simp add: init_service_def keys_ok_def)

lemma dict_set_append:
  "k \<notin> fst ` set pre \<Longrightarrow> dict_set k v (pre @ (k, w) # rest) = pre @ (k, v) # rest"
  by (induction pre) auto

lemma map_of_append_fresh:
  "k \<notin> fst ` set pre \<Longrightarrow> map_of (pre @ (k, w) # rest) k = Some w"
  by (induction pre) auto

lemma remerge_aux:
  "distinct (map fst (pre @ rest)) \<Longrightarrow> list_all (\<lambda>p. hotel_id (snd p) = fst p) rest \<Longrightarrow>
   merge_and_save (svc\<lparr>hotels := pre @ rest\<rparr>) (map snd rest) =
     svc\<lparr>hotels := pre @ map (\<lambda>p. (fst p, merge_hotel (snd p) (snd p))) rest\<rparr>"
proof (induction rest arbitrary: pre svc)
  case Nil
  then show ?case by simp
next
  case (Cons p rest)
  obtain k h where p: "p = (k, h)" by (cases p)
  from Cons.prems p have k: "hotel_id h = k" "k \<notin> fst ` set pre" by auto
  have step: "merge_one (svc\<lparr>hotels := pre @ (k, h) # rest\<rparr>) h =
                svc\<lparr>hotels := (pre @ [(k, merge_hotel h h)]) @ rest\<rparr>"
  proof -
    have l: "map_of (pre @ (k, h) # rest) (hotel_id h) = Some h"
      using map_of_append_fresh [OF k(2), of h rest] k(1) by simp
    have u: "dict_set (hotel_id h) (merge_hotel h h) (pre @ (k, h) # rest) =
               pre @ (k, merge_hotel h h) # rest"
      using dict_set_append [OF k(2), of "merge_hotel h h" h rest] k(1) by simp
    show ?thesis
      by (simp add: merge_one_def l u del: map_of_append)
  qed
  have d: "distinct (map fst ((pre @ [(k, merge_hotel h h)]) @ rest))"
    using Cons.prems(1) p by auto
  have a: "list_all (\<lambda>p. hotel_id (snd p) = fst p) rest"
    using Cons.prems(2) by simp
  from Cons.IH [OF d a, of svc] step p show ?case by simp
qed

lemma remerge_eq:
  assumes "keys_ok (hotels svc)"
  shows "merge_and_save svc (map snd (hotels svc)) =
           svc\<lparr>hotels := map (\<lambda>p. (fst p, merge_hotel (snd p) (snd p))) (hotels svc)\<rparr>"
  using remerge_aux [of "[]" "hotels svc" svc] assms
  by (simp add: keys_ok_def)

lemma map_of_map_snd:
  "map_of (map (\<lambda>p. (fst p, merge_hotel (snd p) (snd p))) ps) k =
     map_option (\<lambda>h. merge_hotel h h) (map_of ps k)"
  by (induction ps) auto

lemma append_new_self: "append_new xs xs = xs"
  by (simp add: append_new_def)

lemma merge_hotel_self:
  "hotel_id (merge_hotel h h) = hotel_id h"
  "destination_id (merge_hotel h h) = destination_id h"
  "name (merge_hotel h h) = name h"
  "description (merge_hotel h h) = description h"
  "location (merge_hotel h h) = location h"
  "images (merge_hotel h h) = images h"
  "set (general (amenities (merge_hotel h h))) = set (general (amenities h))"
  "set (room (amenities (merge_hotel h h))) = set (room (amenities h))"
  "set (booking_conditions (merge_hotel h h)) = set (booking_conditions h)"
  by (simp_all add: merge_hotel_def py_or_def merge_location_def fill_def append_new_self list_set_def)

text \<open>
  C4 (amended). For every mapping that \<open>merge_and_save\<close> builds, merging its own entries
  into it again keeps the keys and their order, and leaves \<open>id\<close>, \<open>destination_id\<close>,
  \<open>name\<close>, \<open>description\<close>, \<open>location\<close> and \<open>images\<close> of every hotel as they
  are; the two amenity lists and the booking conditions keep their sets of entries.
\<close>

theorem remerge_fixed_point:
  assumes "svc = merge_and_save init_service data"
  shows "map fst (hotels (merge_and_save svc (map snd (hotels svc)))) = map fst (hotels svc) \<and>
         (map_of (hotels svc) k = Some e \<longrightarrow>
           (\<exists>m. map_of (hotels (merge_and_save svc (map snd (hotels svc)))) k = Some m \<and>
                hotel_id m = hotel_id e \<and> destination_id m = destination_id e \<and>
                name m = name e \<and> description m = description e \<and>
                location m = location e \<and> images m = images e \<and>
                set (general (amenities m)) = set (general (amenities e)) \<and>
                set (room (amenities m)) = set (room (amenities e)) \<and>
                set (booking_conditions m) = set (booking_conditions e)))"
proof -
  have ok: "keys_ok (hotels svc)"
    unfolding assms by (rule keys_ok_merge_and_save [OF keys_ok_init])
  have eq: "hotels (merge_and_save svc (map snd (hotels svc))) =
              map (\<lambda>p. (fst p, merge_hotel (snd p) (snd p))) (hotels svc)"
    using remerge_eq [OF ok] by simp
  show ?thesis
    unfolding eq by (simp add: map_of_map_snd merge_hotel_self comp_def)
qed

theorem remerge_fixed_point_witness:
  "map_of (hotels (merge_and_save init_service [hotel_a, hotel_c, hotel_b])) ''iJhz'' =
     Some (merge_hotel hotel_a hotel_b) \<and>
   map_option name (map_of (hotels (merge_and_save (merge_and_save init_service [hotel_a, hotel_c, hotel_b])
      (map snd (hotels (merge_and_save init_service [hotel_a, hotel_c, hotel_b]))))) ''iJhz'') =
     Some (PStr ''Beach Villas'') \<and>
   map fst (hotels (merge_and_save (merge_and_save init_service [hotel_a, hotel_c, hotel_b])
      (map snd (hotels (merge_and_save init_service [hotel_a, hotel_c, hotel_b]))))) = [''iJhz'', ''f8c9'']"
  using remerge_fixed_point [of "merge_and_save init_service [hotel_a, hotel_c, hotel_b]"
     "[hotel_a, hotel_c, hotel_b]" "''iJhz''" "merge_hotel hotel_a hotel_b"]
  by (simp add: merge_eval)

text \<open>
  C4 as first stated makes the second merge a no-op on every field. A first record is
  registered with its lists as they are, so an amenity that Acme listed twice is there
  twice; merging the entry into the mapping again collapses the two, in whatever order
  a set lists its elements.
\<close>

theorem remerge_counterexample:
  "map_option (\<lambda>m. room (amenities m))
     (map_of (hotels (merge_and_save init_service [hotel_twice])) ''iJhz'') =
     Some [''aircon'', ''aircon''] \<and>
   map_option (\<lambda>m. room (amenities m))
     (map_of (hotels (merge_and_save (merge_and_save init_service [hotel_twice])
        (map snd (hotels (merge_and_save init_service [hotel_twice]))))) ''iJhz'') =
     Some [''aircon'']"
  by (simp add: merge_eval hotel_twice_def)

end
